theory Spec2Isabelle
  imports Main "HOL-Library.Sublist"
begin

section \<open>The trivia API (flaskr): data model\<close>

text \<open>
  The rows of the two tables. The classes \<open>Question\<close> and \<open>Category\<close> are declared in
  \<open>models.py\<close>; the view functions read the columns \<open>id\<close>, \<open>question\<close>, \<open>answer\<close>,
  \<open>category\<close>, \<open>difficulty\<close> of a question and \<open>id\<close>, \<open>type\<close> of a category. The column
  \<open>id\<close> is written \<open>id_q\<close> and \<open>id_c\<close> here, \<open>type\<close> is written \<open>type_c\<close>.
\<close>

record Question =
  id_q :: int
  question :: string
  answer :: string
  category :: int
  difficulty :: int

record Category =
  id_c :: int
  type_c :: string

record store =
  questions :: "Question list"
  categories :: "Category list"

text \<open>What \<open>jsonify\<close> serialises: the JSON values the responses are built from.\<close>

datatype json =
    JNull
  | JBool bool
  | JNum int
  | JStr string
  | JArr "json list"
  | JObj "(string \<times> json) list"

type_synonym response = "json \<times> nat"

text \<open>
  The exceptions the view functions can raise. \<open>abort(code)\<close> raises an HTTP exception;
  the application aborts with the codes 400, 404, 422 and 500 only.
\<close>

datatype abort_code = Abort400 | Abort404 | Abort422 | Abort500

datatype exc = HTTPException abort_code | AttributeError | KeyError | MultipleResultsFound

definition abort :: "abort_code \<Rightarrow> exc + 'a" where
  "abort code = Inl (HTTPException code)"

section \<open>Pagination\<close>

definition QUESTIONS_PER_PAGE :: int where
  "QUESTIONS_PER_PAGE = 10"

text \<open>
  Python's \<open>xs[start:end]\<close> on a list: a negative index counts from the end, and both
  indices are clipped to \<open>0 .. len(xs)\<close>; the slice is empty when the adjusted start is
  not below the adjusted end.
\<close>

definition adjust_index :: "int \<Rightarrow> int \<Rightarrow> int" where
  "adjust_index n i = (if i < 0 then (if i + n < 0 then 0 else i + n) else (if i \<ge> n then n else i))"

definition py_slice :: "'a list \<Rightarrow> int \<Rightarrow> int \<Rightarrow> 'a list" where
  "py_slice xs start end =
     (let n = int (length xs);
          s = adjust_index n start;
          e = adjust_index n end
      in if s < e then take (nat (e - s)) (drop (nat s) xs) else [])"

text \<open>
  The request, as far as the view functions read it. The field \<open>page\<close> is the query
  argument of \<open>request.args.get('page', 1, type=int)\<close> after its conversion to an
  integer, \<open>None\<close> when the argument is absent or does not convert, in which case
  \<open>get\<close> gives the default. The other fields are the keys that the views read from
  the JSON object \<open>request.get_json()\<close>, \<open>None\<close> when the key is absent: the search
  term is a string, the previous questions are a list of integers and the quiz category
  is an object with integer values.
\<close>

record request =
  page :: "int option"
  searchTerm :: "string option"
  previous_questions :: "int list option"
  quiz_category :: "(string \<times> int) list option"

text \<open>
  \<open>get_paginated_questions(request, questions, num_of_questions)\<close>. The method
  \<open>Question.format\<close> is declared in \<open>models.py\<close>; it is the parameter \<open>format\<close>.
\<close>

definition get_paginated_questions ::
  "(Question \<Rightarrow> json) \<Rightarrow> request \<Rightarrow> Question list \<Rightarrow> int \<Rightarrow> json list" where
  "get_paginated_questions format req qs num_of_questions =
     (let page_no = (case page req of None \<Rightarrow> 1 | Some p \<Rightarrow> p);
          start = (page_no - 1) * num_of_questions;
          end = start + num_of_questions;
          formatted = map format qs;
          current_questions = py_slice formatted start end
      in current_questions)"

text \<open>
  The specification's \<open>paginate(items, pageSize, pageNumber)\<close>, in its own words: the
  elements at the indices from \<open>(pageNumber - 1) * pageSize\<close> (inclusive) to
  \<open>pageNumber * pageSize\<close> (exclusive), both clipped to the length of the sequence.
\<close>

definition paginate_spec :: "'a list \<Rightarrow> nat \<Rightarrow> nat \<Rightarrow> 'a list" where
  "paginate_spec items pageSize pageNumber =
     map (\<lambda>i. items ! i)
       [min ((pageNumber - 1) * pageSize) (length items) ..<
        min (pageNumber * pageSize) (length items)]"

section \<open>Error handlers\<close>

text \<open>The four functions registered with \<open>app.errorhandler\<close>; each ignores its argument.\<close>

definition bad_request :: "exc \<Rightarrow> response" where
  "bad_request error =
     (JObj [(''success'', JBool False),
            ('' '', JNum 400),
            (''message'', JStr ''Bad request error'')], 400)"

definition not_found :: "exc \<Rightarrow> response" where
  "not_found error =
     (JObj [(''success'', JBool False),
            (''error'', JNum 404),
            (''message'', JStr ''Resource not found'')], 404)"

definition internal_server_error :: "exc \<Rightarrow> response" where
  "internal_server_error error =
     (JObj [(''success'', JBool False),
            (''error'', JNum 500),
            (''message'', JStr ''An error has occured, please try again'')], 500)"

definition unprocesable_entity :: "exc \<Rightarrow> response" where
  "unprocesable_entity error =
     (JObj [(''success'', JBool False),
            (''error'', JNum 422),
            (''message'', JStr ''Unprocessable entity'')], 422)"

text \<open>
  What the framework answers when a view function raises: an HTTP exception goes to the
  handler registered for its code, any other exception to the handler for 500.
\<close>

fun handle_exception :: "exc \<Rightarrow> response" where
  "handle_exception (HTTPException Abort400) = bad_request (HTTPException Abort400)"
| "handle_exception (HTTPException Abort404) = not_found (HTTPException Abort404)"
| "handle_exception (HTTPException Abort500) = internal_server_error (HTTPException Abort500)"
| "handle_exception (HTTPException Abort422) = unprocesable_entity (HTTPException Abort422)"
| "handle_exception e = internal_server_error e"

definition respond :: "exc + response \<Rightarrow> response" where
  "respond r = (case r of Inl e \<Rightarrow> handle_exception e | Inr resp \<Rightarrow> resp)"

text \<open>\<open>try: body except: handler\<close>, with a bare \<open>except\<close> that catches every exception.\<close>

definition try_except :: "exc + 'a \<Rightarrow> exc + 'a \<Rightarrow> exc + 'a" where
  "try_except body handler = (case body of Inl e \<Rightarrow> handler | Inr r \<Rightarrow> Inr r)"

text \<open>Reading a key of a JSON object, for the statements about responses.\<close>

fun json_get :: "json \<Rightarrow> string \<Rightarrow> json option" where
  "json_get (JObj kvs) k = map_of kvs k"
| "json_get v k = None"

section \<open>Queries\<close>

text \<open>
  The queries of the views over the two tables: \<open>Question.query.all()\<close>,
  \<open>order_by(Question.id)\<close>, \<open>Question.query.get(id)\<close>, \<open>filter_by(category=id)\<close>,
  \<open>first()\<close> and \<open>one_or_none()\<close>.
\<close>

definition query_all :: "store \<Rightarrow> Question list" where
  "query_all s = questions s"

definition order_by_id :: "Question list \<Rightarrow> Question list" where
  "order_by_id qs = sort_key id_q qs"

definition query_get :: "store \<Rightarrow> int \<Rightarrow> Question option" where
  "query_get s i = find (\<lambda>q. id_q q = i) (questions s)"

definition filter_by_category :: "int \<Rightarrow> Question list \<Rightarrow> Question list" where
  "filter_by_category c qs = filter (\<lambda>q. category q = c) qs"

fun first :: "'a list \<Rightarrow> 'a option" where
  "first [] = None"
| "first (x # xs) = Some x"

fun one_or_none :: "'a list \<Rightarrow> exc + 'a option" where
  "one_or_none [] = Inr None"
| "one_or_none [x] = Inr (Some x)"
| "one_or_none xs = Inl MultipleResultsFound"

text \<open>
  \<open>order_by(func.random())\<close>: the database draws a value for every row and orders the
  rows by it. The draw is the parameter \<open>random\<close>.
\<close>

definition order_by_random :: "(Question \<Rightarrow> 'r::linorder) \<Rightarrow> Question list \<Rightarrow> Question list" where
  "order_by_random random qs = sort_key random qs"

subsection \<open>The operator \<open>ilike\<close>\<close>

text \<open>
  \<open>column.ilike(pattern)\<close> is the database's case-insensitive \<open>LIKE\<close>: in the pattern
  \<open>%\<close> stands for any sequence of characters and \<open>_\<close> for any single character; the
  backslash (character \<open>0x5C\<close>) is the escape character of PostgreSQL, the database this
  repository connects to, and makes the character after it stand for itself. Every
  other character stands for itself. Case is folded on the letters \<open>A\<close> to \<open>Z\<close>.
\<close>

fun like_match :: "string \<Rightarrow> string \<Rightarrow> bool" where
  "like_match [] t = (t = [])"
| "like_match (p # ps) [] = (p = CHR ''%'' \<and> like_match ps [])"
| "like_match (p # ps) (c # cs) =
     (if p = CHR ''%'' then like_match ps (c # cs) \<or> like_match (p # ps) cs
      else if p = CHR 0x5C then (case ps of [] \<Rightarrow> False | e # ps' \<Rightarrow> c = e \<and> like_match ps' cs)
      else if p = CHR ''_'' then like_match ps cs
      else p = c \<and> like_match ps cs)"

definition lower :: "char \<Rightarrow> char" where
  "lower c = (let n = (of_char c :: nat) in if 65 \<le> n \<and> n \<le> 90 then char_of (n + 32) else c)"

definition ilike :: "string \<Rightarrow> string \<Rightarrow> bool" where
  "ilike str pattern = like_match (map lower pattern) (map lower str)"

section \<open>View functions\<close>

subsection \<open>\<open>DELETE /questions/<int:id>\<close>\<close>

text \<open>
  Modelled from the spec: the method \<open>Question.delete\<close> is declared in \<open>models.py\<close>.
  The specification's \<open>delete\<close> removes the question with that id, so that a subsequent
  \<open>listAll\<close> excludes it, and either commits fully or not at all.
\<close>

definition Question_delete :: "Question \<Rightarrow> store \<Rightarrow> store" where
  "Question_delete q s = s\<lparr>questions := filter (\<lambda>r. id_q r \<noteq> id_q q) (questions s)\<rparr>"

definition delete_question :: "store \<Rightarrow> int \<Rightarrow> store \<times> (exc + response)" where
  "delete_question s i =
     (case (case query_get s i of
              None \<Rightarrow> Inl AttributeError
            | Some q \<Rightarrow> Inr (Question_delete q s)) of
        Inl e \<Rightarrow> (s, abort Abort404)
      | Inr s' \<Rightarrow>
          (s', Inr (JObj [(''success'', JBool True),
                          (''question_id'', JNum i),
                          (''message'', JStr ''Question successfully deleted'')], 200)))"

subsection \<open>\<open>POST /questions/search\<close>\<close>

definition search_query :: "store \<Rightarrow> string \<Rightarrow> Question list" where
  "search_query s search_term =
     filter (\<lambda>q. ilike (question q) (''%'' @ search_term @ ''%'')) (query_all s)"

definition search_questions :: "(Question \<Rightarrow> json) \<Rightarrow> store \<Rightarrow> request \<Rightarrow> exc + response" where
  "search_questions format s req =
     (let search_term = (case searchTerm req of None \<Rightarrow> [] | Some t \<Rightarrow> t)
      in try_except
           (let qs = search_query s search_term
            in if length qs = 0 then abort Abort404
               else
                 (let paginated_questions = get_paginated_questions format req qs QUESTIONS_PER_PAGE
                  in Inr (JObj [(''success'', JBool True),
                                (''questions'', JArr paginated_questions),
                                (''total_questions'', JNum (int (length (query_all s))))], 200)))
           (abort Abort404))"

subsection \<open>\<open>GET /categories/<int:id>/questions\<close>\<close>

definition get_questions_by_category ::
  "(Question \<Rightarrow> json) \<Rightarrow> store \<Rightarrow> request \<Rightarrow> int \<Rightarrow> exc + response" where
  "get_questions_by_category format s req i =
     (case one_or_none (filter (\<lambda>c. id_c c = i) (categories s)) of
        Inl e \<Rightarrow> Inl e
      | Inr None \<Rightarrow> abort Abort422
      | Inr (Some cat) \<Rightarrow>
          (let qs = filter_by_category i (query_all s);
               paginated_questions = get_paginated_questions format req qs QUESTIONS_PER_PAGE
           in if length paginated_questions = 0 then abort Abort404
              else Inr (JObj [(''success'', JBool True),
                              (''questions'', JArr paginated_questions),
                              (''total_questions'', JNum (int (length qs))),
                              (''current_category'', JStr (type_c cat))], 200)))"

subsection \<open>\<open>POST /quizzes\<close>\<close>

definition question_dict :: "Question \<Rightarrow> json" where
  "question_dict q =
     JObj [(''id'', JNum (id_q q)),
           (''question'', JStr (question q)),
           (''answer'', JStr (answer q)),
           (''category'', JNum (category q)),
           (''difficulty'', JNum (difficulty q))]"

definition play_quiz_question ::
  "(Question \<Rightarrow> 'r::linorder) \<Rightarrow> store \<Rightarrow> request \<Rightarrow> exc + response" where
  "play_quiz_question random s req =
     try_except
       (case quiz_category req of
          None \<Rightarrow> abort Abort400
        | Some qc \<Rightarrow>
            (case previous_questions req of
               None \<Rightarrow> abort Abort400
             | Some prev \<Rightarrow>
                 (case map_of qc ''id'' of
                    None \<Rightarrow> Inl KeyError
                  | Some cid \<Rightarrow>
                      (let qs = query_all s;
                           qs = (if cid \<noteq> 0 then filter_by_category cid qs else qs);
                           qs = filter (\<lambda>q. \<not> id_q q \<in> set prev) qs
                       in case first (order_by_random random qs) of
                            None \<Rightarrow> Inl AttributeError
                          | Some q \<Rightarrow>
                              (let total_questions = length qs
                               in Inr (JObj [(''success'', JBool True),
                                             (''question'', question_dict q),
                                             (''totalQuestions'', JNum (int total_questions))],
                                       200))))))
       (abort Abort422)"

section \<open>The specification of the search\<close>

text \<open>
  The specification's \<open>search(substring)\<close>, in its own words: the questions whose text
  contains the substring, case-insensitively.
\<close>

definition search_spec :: "store \<Rightarrow> string \<Rightarrow> Question list" where
  "search_spec s substring =
     filter (\<lambda>q. sublist (map lower substring) (map lower (question q))) (questions s)"

text \<open>The characters that stand for themselves in a pattern of \<open>LIKE\<close>.\<close>

definition plain :: "char \<Rightarrow> bool" where
  "plain c \<longleftrightarrow> c \<noteq> CHR ''%'' \<and> c \<noteq> CHR ''_'' \<and> c \<noteq> CHR 0x5C"

section \<open>Example data\<close>

definition example_request :: request where
  "example_request =
     \<lparr>page = None, searchTerm = None, previous_questions = None, quiz_category = None\<rparr>"

definition example_question :: "int \<Rightarrow> int \<Rightarrow> string \<Rightarrow> Question" where
  "example_question i c str =
     \<lparr>id_q = i, question = str, answer = ''answer'', category = c, difficulty = 1\<rparr>"

definition twelve_questions :: "Question list" where
  "twelve_questions =
     map (\<lambda>i. example_question i 1 ''text'') [1, 2, 3, 4, 5, 6, 7, 8, 9, 10, 11, 12]"

text \<open>
  A store of four questions: the questions 1, 2 and 3 in category 1, question 4 in
  category 2.
\<close>

definition example_store :: store where
  "example_store =
     \<lparr>questions = [example_question 1 1 ''What is the Title?'',
                   example_question 2 1 ''abc'',
                   example_question 3 1 ''Who?'',
                   example_question 4 2 ''100% sure''],
      categories = [\<lparr>id_c = 1, type_c = ''Science''\<rparr>, \<lparr>id_c = 2, type_c = ''Art''\<rparr>]\<rparr>"

section \<open>Pagination: results\<close>

lemma py_slice_nonneg:
  assumes "0 \<le> a" and "0 \<le> k"
  shows "py_slice xs a (a + k) = take (nat k) (drop (nat a) xs)"
proof (cases "a < int (length xs)")
  case True
  show ?thesis
  proof (cases "a + k < int (length xs)")
    case True
    with assms \<open>a < int (length xs)\<close> show ?thesis
      by (simp add: py_slice_def adjust_index_def Let_def)
  next
    case False
    with assms \<open>a < int (length xs)\<close> show ?thesis
      by (simp add: py_slice_def adjust_index_def Let_def)
  qed
next
  case False
  with assms show ?thesis
    by (simp add: py_slice_def adjust_index_def Let_def)
qed

lemma paginate_spec_take_drop:
  assumes "0 < p"
  shows "paginate_spec xs k p = take k (drop ((p - 1) * k) xs)"
proof -
  from assms have pk: "p * k = (p - 1) * k + k"
    by (cases p) simp_all
  show ?thesis
    unfolding paginate_spec_def pk
    by (rule nth_equalityI) (auto simp: min_def split: if_splits)
qed

lemma get_paginated_questions_take_drop:
  assumes "page req = Some p" and "1 \<le> p"
  shows "get_paginated_questions format req qs QUESTIONS_PER_PAGE
           = map format (take 10 (drop (nat ((p - 1) * 10)) qs))"
proof -
  from assms have "(0::int) \<le> (p - 1) * 10" by simp
  then have "py_slice (map format qs) ((p - 1) * 10) ((p - 1) * 10 + 10)
               = take (nat 10) (drop (nat ((p - 1) * 10)) (map format qs))"
    by (rule py_slice_nonneg) simp
  with assms(1) show ?thesis
    by (simp add: get_paginated_questions_def QUESTIONS_PER_PAGE_def Let_def take_map drop_map)
qed

text \<open>
  C1. With page size 10 and a page number \<open>p \<ge> 1\<close>, \<open>get_paginated_questions\<close> returns
  the formatted questions at the indices from \<open>(p - 1) * 10\<close> (inclusive) to \<open>p * 10\<close>
  (exclusive), clipped to the length of the list; it returns the empty list when
  \<open>(p - 1) * 10\<close> is at or beyond the length. On a list of 12 questions page 1 is the
  first 10, page 2 the remaining 2 and page 3 is empty.
\<close>

theorem get_paginated_questions_slice:
  "(page req = Some p \<and> 1 \<le> p \<longrightarrow>
      get_paginated_questions format req qs QUESTIONS_PER_PAGE
        = map format (paginate_spec qs 10 (nat p)))
   \<and> (page req = Some p \<and> 1 \<le> p \<and> int (length qs) \<le> (p - 1) * 10 \<longrightarrow>
      get_paginated_questions format req qs QUESTIONS_PER_PAGE = [])
   \<and> (length qs = 12 \<longrightarrow>
      get_paginated_questions format (req\<lparr>page := Some 1\<rparr>) qs QUESTIONS_PER_PAGE
        = map format (take 10 qs)
      \<and> get_paginated_questions format (req\<lparr>page := Some 2\<rparr>) qs QUESTIONS_PER_PAGE
        = map format (drop 10 qs)
      \<and> get_paginated_questions format (req\<lparr>page := Some 3\<rparr>) qs QUESTIONS_PER_PAGE = [])"
proof (intro conjI impI)
  assume a: "page req = Some p \<and> 1 \<le> p"
  then have "nat ((p - 1) * 10) = (nat p - 1) * 10"
    by (simp add: nat_mult_distrib nat_diff_distrib)
  with a show "get_paginated_questions format req qs QUESTIONS_PER_PAGE
        = map format (paginate_spec qs 10 (nat p))"
    by (simp add: get_paginated_questions_take_drop paginate_spec_take_drop)
next
  assume a: "page req = Some p \<and> 1 \<le> p \<and> int (length qs) \<le> (p - 1) * 10"
  then have "1 \<le> p" and "length qs \<le> nat ((p - 1) * 10)"
    by linarith+
  with a show "get_paginated_questions format req qs QUESTIONS_PER_PAGE = []"
    by (simp add: get_paginated_questions_take_drop)
next
  show "get_paginated_questions format (req\<lparr>page := Some 1\<rparr>) qs QUESTIONS_PER_PAGE
        = map format (take 10 qs)"
    by (simp add: get_paginated_questions_take_drop [where p = 1])
next
  show "get_paginated_questions format (req\<lparr>page := Some 2\<rparr>) qs QUESTIONS_PER_PAGE
        = map format (drop 10 qs)" if "length qs = 12"
    using that by (simp add: get_paginated_questions_take_drop [where p = 2])
next
  show "get_paginated_questions format (req\<lparr>page := Some 3\<rparr>) qs QUESTIONS_PER_PAGE = []"
    if "length qs = 12"
    using that by (simp add: get_paginated_questions_take_drop [where p = 3])
qed

theorem get_paginated_questions_slice_witness:
  "page (example_request\<lparr>page := Some 2\<rparr>) = Some 2 \<and> (1::int) \<le> 2
   \<and> length twelve_questions = 12
   \<and> get_paginated_questions (JNum \<circ> id_q) (example_request\<lparr>page := Some 2\<rparr>)
        twelve_questions QUESTIONS_PER_PAGE = [JNum 11, JNum 12]
   \<and> get_paginated_questions (JNum \<circ> id_q) (example_request\<lparr>page := Some 1\<rparr>)
        twelve_questions QUESTIONS_PER_PAGE
        = [JNum 1, JNum 2, JNum 3, JNum 4, JNum 5, JNum 6, JNum 7, JNum 8, JNum 9, JNum 10]
   \<and> get_paginated_questions (JNum \<circ> id_q) (example_request\<lparr>page := Some 3\<rparr>)
        twelve_questions QUESTIONS_PER_PAGE = []"
proof -
  have len: "length twelve_questions = 12"
    by (simp add: twelve_questions_def)
  have "map (JNum \<circ> id_q) (paginate_spec twelve_questions 10 2) = [JNum 11, JNum 12]"
    by (simp add: paginate_spec_take_drop twelve_questions_def example_question_def)
  moreover have "map (JNum \<circ> id_q) (take 10 twelve_questions)
      = [JNum 1, JNum 2, JNum 3, JNum 4, JNum 5, JNum 6, JNum 7, JNum 8, JNum 9, JNum 10]"
    by (simp add: twelve_questions_def example_question_def)
  ultimately show ?thesis
    using len
      get_paginated_questions_slice
        [of "example_request\<lparr>page := Some 2\<rparr>" 2 "JNum \<circ> id_q" twelve_questions]
    by (simp add: example_request_def)
qed

text \<open>
  C10. With page number 0, \<open>get_paginated_questions\<close> returns the empty list for every
  list of questions: the slice runs from \<open>-10\<close> to \<open>0\<close>.
\<close>

theorem get_paginated_questions_page_zero:
  "page req = Some 0 \<Longrightarrow> get_paginated_questions format req qs QUESTIONS_PER_PAGE = []"
  by (simp add: get_paginated_questions_def QUESTIONS_PER_PAGE_def py_slice_def
      adjust_index_def Let_def)

theorem get_paginated_questions_page_zero_witness:
  "page (example_request\<lparr>page := Some 0\<rparr>) = Some 0
   \<and> get_paginated_questions (JNum \<circ> id_q) (example_request\<lparr>page := Some 0\<rparr>)
        twelve_questions QUESTIONS_PER_PAGE = []"
  using get_paginated_questions_page_zero
    [of "example_request\<lparr>page := Some 0\<rparr>" "JNum \<circ> id_q" twelve_questions]
  by simp

section \<open>Error responses\<close>

lemma try_except_Inl [simp]: "try_except (Inl e) handler = handler"
  by (simp add: try_except_def)

lemma try_except_Inr [simp]: "try_except (Inr r) handler = Inr r"
  by (simp add: try_except_def)

lemma try_except_abort [simp]: "try_except (abort code) handler = handler"
  by (simp add: try_except_def abort_def)

lemma respond_abort:
  "respond (abort Abort400) = bad_request (HTTPException Abort400)"
  "respond (abort Abort404) = not_found (HTTPException Abort404)"
  "respond (abort Abort422) = unprocesable_entity (HTTPException Abort422)"
  "respond (abort Abort500) = internal_server_error (HTTPException Abort500)"
  by (simp_all add: respond_def abort_def)

lemma registered_handlers_error_field:
  "json_get (fst (not_found e)) ''error'' = Some (JNum 404)"
  "json_get (fst (unprocesable_entity e)) ''error'' = Some (JNum 422)"
  "json_get (fst (internal_server_error e)) ''error'' = Some (JNum 500)"
  by (simp_all add: not_found_def unprocesable_entity_def internal_server_error_def)

lemma registered_handlers_success_field:
  "json_get (fst (bad_request e)) ''success'' = Some (JBool False)"
  "json_get (fst (not_found e)) ''success'' = Some (JBool False)"
  "json_get (fst (unprocesable_entity e)) ''success'' = Some (JBool False)"
  "json_get (fst (internal_server_error e)) ''success'' = Some (JBool False)"
  by (simp_all add: bad_request_def not_found_def unprocesable_entity_def
      internal_server_error_def)

text \<open>
  C5. The claim asks every error response for a field \<open>error\<close> that holds the status
  code. The response of the handler for 400 has the fields \<open>success\<close> and \<open>message\<close>, and
  its status code under the key that is a single space: it has no field \<open>error\<close>.
\<close>

theorem bad_request_has_no_error_field:
  "handle_exception (HTTPException Abort400)
     = (JObj [(''success'', JBool False),
              ('' '', JNum 400),
              (''message'', JStr ''Bad request error'')], 400)
   \<and> json_get (fst (handle_exception (HTTPException Abort400))) ''error'' = None
   \<and> json_get (fst (handle_exception (HTTPException Abort400))) '' '' = Some (JNum 400)"
  by (simp add: bad_request_def)

section \<open>The quiz\<close>

lemma play_quiz_question_missing_field:
  assumes "quiz_category req = None \<or> previous_questions req = None"
  shows "play_quiz_question random s req = abort Abort422"
  using assms by (auto simp: play_quiz_question_def split: option.splits)

text \<open>
  C3. The claim asks for the status 400 when \<open>previous_questions\<close> or \<open>quiz_category\<close> is
  missing. The view calls \<open>abort(400)\<close> inside its \<open>try\<close> block, the bare \<open>except\<close>
  catches that exception and calls \<open>abort(422)\<close>: on a body without
  \<open>previous_questions\<close> the response is the one for 422.
\<close>

theorem play_quiz_question_missing_field_422:
  "play_quiz_question id_q example_store
       (example_request\<lparr>quiz_category := Some [(''id'', 0)]\<rparr>)
     = Inl (HTTPException Abort422)
   \<and> respond (play_quiz_question id_q example_store
       (example_request\<lparr>quiz_category := Some [(''id'', 0)]\<rparr>))
     = unprocesable_entity (HTTPException Abort422)
   \<and> snd (respond (play_quiz_question id_q example_store
       (example_request\<lparr>quiz_category := Some [(''id'', 0)]\<rparr>))) = 422"
  by (simp add: play_quiz_question_def example_request_def abort_def respond_def
      unprocesable_entity_def)

text \<open>The questions that the quiz query keeps, and the first row of a random order.\<close>

lemma first_order_by_random_None:
  "first (order_by_random random qs) = None \<longleftrightarrow> qs = []"
proof
  assume "first (order_by_random random qs) = None"
  then have "order_by_random random qs = []"
    by (cases "order_by_random random qs") simp_all
  then have "set (sort_key random qs) = {}"
    by (simp add: order_by_random_def)
  then show "qs = []" by simp
next
  assume "qs = []"
  then show "first (order_by_random random qs) = None"
    by (simp add: order_by_random_def)
qed

lemma first_order_by_random_Some:
  assumes "first (order_by_random random qs) = Some q"
  shows "q \<in> set qs"
proof -
  from assms have "q \<in> set (order_by_random random qs)"
    by (cases "order_by_random random qs") auto
  then show ?thesis
    by (simp add: order_by_random_def)
qed

lemma play_quiz_question_body:
  assumes "quiz_category req = Some qc" and "previous_questions req = Some prev"
    and "map_of qc ''id'' = Some cid"
  shows "play_quiz_question random s req =
     (let qs = filter (\<lambda>q. id_q q \<notin> set prev)
                 (if cid \<noteq> 0 then filter (\<lambda>q. category q = cid) (questions s)
                  else questions s)
      in case first (order_by_random random qs) of
           None \<Rightarrow> abort Abort422
         | Some q \<Rightarrow>
             Inr (JObj [(''success'', JBool True),
                        (''question'', question_dict q),
                        (''totalQuestions'', JNum (int (length qs)))], 200))"
  using assms
  by (simp add: play_quiz_question_def query_all_def filter_by_category_def Let_def
      split: option.splits)

lemma eligible_set:
  "set (filter (\<lambda>q. id_q q \<notin> set prev)
          (if cid \<noteq> 0 then filter (\<lambda>q. category q = cid) qs else qs))
     = {q \<in> set qs. (cid = 0 \<or> category q = cid) \<and> id_q q \<notin> set prev}"
  by auto

text \<open>
  C2. On a body with both fields, category id \<open>c\<close> and previous questions \<open>P\<close>: when some
  question of the store has the category \<open>c\<close> (or \<open>c\<close> is 0) and an id outside \<open>P\<close>, the
  view answers 200 with such a question, whatever the random draw is; and when exactly
  one question \<open>q\<close> is eligible, the question of the response is \<open>q\<close> for every draw.
  (The case of no eligible question is C8.)
\<close>

theorem play_quiz_question_eligible:
  assumes "quiz_category req = Some qc" and "previous_questions req = Some P"
    and "map_of qc ''id'' = Some c"
  shows "((\<exists>q \<in> set (questions s). (c = 0 \<or> category q = c) \<and> id_q q \<notin> set P) \<longrightarrow>
           (\<exists>q n. q \<in> set (questions s) \<and> (c \<noteq> 0 \<longrightarrow> category q = c) \<and> id_q q \<notin> set P
              \<and> play_quiz_question random s req
                  = Inr (JObj [(''success'', JBool True),
                               (''question'', question_dict q),
                               (''totalQuestions'', JNum n)], 200)))
       \<and> ({q \<in> set (questions s). (c = 0 \<or> category q = c) \<and> id_q q \<notin> set P} = {q0} \<longrightarrow>
           (\<exists>n. play_quiz_question random s req
                  = Inr (JObj [(''success'', JBool True),
                               (''question'', question_dict q0),
                               (''totalQuestions'', JNum n)], 200)))
       \<and> (play_quiz_question random s req = Inr resp \<longrightarrow>
           (\<exists>q n. q \<in> set (questions s) \<and> (c \<noteq> 0 \<longrightarrow> category q = c) \<and> id_q q \<notin> set P
              \<and> resp = (JObj [(''success'', JBool True),
                              (''question'', question_dict q),
                              (''totalQuestions'', JNum n)], 200)))"
proof -
  define qs where "qs = filter (\<lambda>q. id_q q \<notin> set P)
                 (if c \<noteq> 0 then filter (\<lambda>q. category q = c) (questions s)
                  else questions s)"
  have set_qs: "set qs = {q \<in> set (questions s). (c = 0 \<or> category q = c) \<and> id_q q \<notin> set P}"
    unfolding qs_def by (rule eligible_set)
  have body: "play_quiz_question random s req =
      (case first (order_by_random random qs) of
           None \<Rightarrow> abort Abort422
         | Some q \<Rightarrow>
             Inr (JObj [(''success'', JBool True),
                        (''question'', question_dict q),
                        (''totalQuestions'', JNum (int (length qs)))], 200))"
    using play_quiz_question_body [OF assms, of random s] by (simp only: qs_def Let_def)
  have some: "\<exists>q \<in> set qs. play_quiz_question random s req
                  = Inr (JObj [(''success'', JBool True),
                               (''question'', question_dict q),
                               (''totalQuestions'', JNum (int (length qs)))], 200)"
    if "qs \<noteq> []"
  proof -
    from that obtain q where q: "first (order_by_random random qs) = Some q"
      using first_order_by_random_None [of random qs] by (cases "first (order_by_random random qs)") auto
    then have "q \<in> set qs" by (rule first_order_by_random_Some)
    with q body show ?thesis by auto
  qed
  show ?thesis
  proof (intro conjI impI)
    assume "\<exists>q \<in> set (questions s). (c = 0 \<or> category q = c) \<and> id_q q \<notin> set P"
    then have "set qs \<noteq> {}" unfolding set_qs by blast
    then have "qs \<noteq> []" by auto
    from some [OF this] set_qs
    show "\<exists>q n. q \<in> set (questions s) \<and> (c \<noteq> 0 \<longrightarrow> category q = c) \<and> id_q q \<notin> set P
              \<and> play_quiz_question random s req
                  = Inr (JObj [(''success'', JBool True),
                               (''question'', question_dict q),
                               (''totalQuestions'', JNum n)], 200)"
      by blast
  next
    assume "{q \<in> set (questions s). (c = 0 \<or> category q = c) \<and> id_q q \<notin> set P} = {q0}"
    then have one: "set qs = {q0}" by (simp add: set_qs)
    then have "qs \<noteq> []" by auto
    from some [OF this] one
    show "\<exists>n. play_quiz_question random s req
                  = Inr (JObj [(''success'', JBool True),
                               (''question'', question_dict q0),
                               (''totalQuestions'', JNum n)], 200)"
      by auto
  next
    assume r: "play_quiz_question random s req = Inr resp"
    with body have "qs \<noteq> []"
      using first_order_by_random_None [of random qs] by (auto simp: abort_def)
    from some [OF this] r set_qs
    show "\<exists>q n. q \<in> set (questions s) \<and> (c \<noteq> 0 \<longrightarrow> category q = c) \<and> id_q q \<notin> set P
              \<and> resp = (JObj [(''success'', JBool True),
                              (''question'', question_dict q),
                              (''totalQuestions'', JNum n)], 200)"
      by auto
  qed
qed

lemma example_store_eligible:
  "{q \<in> set (questions example_store). ((1::int) = 0 \<or> category q = 1) \<and> id_q q \<notin> set [1, 2]}
     = {example_question 3 1 ''Who?''}"
  by (auto simp: example_store_def example_question_def)

theorem play_quiz_question_eligible_witness:
  "quiz_category (example_request\<lparr>previous_questions := Some [1, 2],
        quiz_category := Some [(''id'', 1)]\<rparr>) = Some [(''id'', 1)]
   \<and> previous_questions (example_request\<lparr>previous_questions := Some [1, 2],
        quiz_category := Some [(''id'', 1)]\<rparr>) = Some [1, 2]
   \<and> map_of [(''id'', 1::int)] ''id'' = Some 1
   \<and> {q \<in> set (questions example_store). category q = 1 \<and> id_q q \<notin> set [1, 2]}
        = {example_question 3 1 ''Who?''}
   \<and> (\<exists>n. play_quiz_question id_q example_store
          (example_request\<lparr>previous_questions := Some [1, 2],
             quiz_category := Some [(''id'', 1)]\<rparr>)
        = Inr (JObj [(''success'', JBool True),
                     (''question'', question_dict (example_question 3 1 ''Who?'')),
                     (''totalQuestions'', JNum n)], 200))"
  using example_store_eligible
    play_quiz_question_eligible
      [where req = "example_request\<lparr>previous_questions := Some [1, 2],
             quiz_category := Some [(''id'', 1)]\<rparr>"
         and qc = "[(''id'', 1)]" and P = "[1, 2]" and c = 1 and s = example_store
         and ?q0.0 = "example_question 3 1 ''Who?''" and random = id_q]
  by simp

text \<open>
  C8. On a body with both fields and no eligible question (every question of the
  category, or of the store when the category id is 0, has its id among the previous
  questions) the view does not answer 200: the query has no first row, reading the
  attribute \<open>id\<close> of \<open>None\<close> raises, and the bare \<open>except\<close> calls \<open>abort(422)\<close>. The
  response is the one of the handler for 422, not the one for 500.
\<close>

theorem play_quiz_question_exhausted:
  assumes "quiz_category req = Some qc" and "previous_questions req = Some P"
    and "map_of qc ''id'' = Some c"
    and "{q \<in> set (questions s). (c = 0 \<or> category q = c) \<and> id_q q \<notin> set P} = {}"
  shows "play_quiz_question random s req = Inl (HTTPException Abort422)
       \<and> respond (play_quiz_question random s req) = unprocesable_entity (HTTPException Abort422)
       \<and> snd (respond (play_quiz_question random s req)) = 422"
proof -
  define qs where "qs = filter (\<lambda>q. id_q q \<notin> set P)
                 (if c \<noteq> 0 then filter (\<lambda>q. category q = c) (questions s)
                  else questions s)"
  have "set qs = {}"
    unfolding qs_def eligible_set using assms(4) .
  then have "first (order_by_random random qs) = None"
    by (simp add: first_order_by_random_None)
  then have "play_quiz_question random s req = abort Abort422"
    using play_quiz_question_body [OF assms(1-3), of random s]
    by (simp add: qs_def Let_def)
  then show ?thesis
    by (simp add: respond_abort unprocesable_entity_def) (simp add: abort_def)
qed

lemma example_store_exhausted:
  "{q \<in> set (questions example_store). ((1::int) = 0 \<or> category q = 1) \<and> id_q q \<notin> set [1, 2, 3]}
     = {}"
  by (auto simp: example_store_def example_question_def)

theorem play_quiz_question_exhausted_witness:
  "quiz_category (example_request\<lparr>previous_questions := Some [1, 2, 3],
        quiz_category := Some [(''id'', 1)]\<rparr>) = Some [(''id'', 1)]
   \<and> previous_questions (example_request\<lparr>previous_questions := Some [1, 2, 3],
        quiz_category := Some [(''id'', 1)]\<rparr>) = Some [1, 2, 3]
   \<and> map_of [(''id'', 1::int)] ''id'' = Some 1
   \<and> {q \<in> set (questions example_store). category q = 1 \<and> id_q q \<notin> set [1, 2, 3]} = {}
   \<and> respond (play_quiz_question id_q example_store
          (example_request\<lparr>previous_questions := Some [1, 2, 3],
             quiz_category := Some [(''id'', 1)]\<rparr>))
        = (JObj [(''success'', JBool False),
                 (''error'', JNum 422),
                 (''message'', JStr ''Unprocessable entity'')], 422)"
  using example_store_exhausted
    play_quiz_question_exhausted
      [of "example_request\<lparr>previous_questions := Some [1, 2, 3],
             quiz_category := Some [(''id'', 1)]\<rparr>"
          "[(''id'', 1)]" "[1, 2, 3]" 1 example_store id_q]
  by (simp add: unprocesable_entity_def respond_def)

theorem play_quiz_question_exhausted_not_500:
  "snd (respond (play_quiz_question id_q example_store
          (example_request\<lparr>previous_questions := Some [1, 2, 3],
             quiz_category := Some [(''id'', 1)]\<rparr>))) \<noteq> 500
   \<and> respond (play_quiz_question id_q example_store
          (example_request\<lparr>previous_questions := Some [1, 2, 3],
             quiz_category := Some [(''id'', 1)]\<rparr>))
        \<noteq> internal_server_error AttributeError"
  by (simp add: play_quiz_question_def example_request_def example_store_def
      example_question_def query_all_def filter_by_category_def order_by_random_def
      abort_def respond_def unprocesable_entity_def internal_server_error_def)

section \<open>Questions of a category\<close>

text \<open>
  C4. The route \<open>/categories/<int:id>/questions\<close> passes an id written in digits only,
  so the view is called with a non-negative id. For a non-negative category id that no
  row of the category table has, \<open>get_questions_by_category\<close> calls \<open>abort(422)\<close>: the
  response is the one of the handler for 422 (unprocessable entity), not the one for
  404. (A negative id does not reach the view; nothing is stated about it.)
\<close>

theorem get_questions_by_category_unknown:
  assumes nonneg: "0 \<le> i"
    and unknown: "i \<notin> id_c ` set (categories s)"
  shows "get_questions_by_category format s req i = Inl (HTTPException Abort422)
       \<and> respond (get_questions_by_category format s req i)
           = unprocesable_entity (HTTPException Abort422)
       \<and> snd (respond (get_questions_by_category format s req i)) = 422"
proof -
  from unknown have "filter (\<lambda>c. id_c c = i) (categories s) = []"
    by (auto simp: filter_empty_conv)
  then have "get_questions_by_category format s req i = abort Abort422"
    by (simp add: get_questions_by_category_def)
  then show ?thesis
    by (simp add: respond_abort unprocesable_entity_def) (simp add: abort_def)
qed

theorem get_questions_by_category_unknown_witness:
  "(0::int) \<le> 5
   \<and> 5 \<notin> id_c ` set (categories example_store)
   \<and> respond (get_questions_by_category (JNum \<circ> id_q) example_store example_request 5)
        = (JObj [(''success'', JBool False),
                 (''error'', JNum 422),
                 (''message'', JStr ''Unprocessable entity'')], 422)"
proof -
  have nonneg: "(0::int) \<le> 5"
    by simp
  have unknown: "5 \<notin> id_c ` set (categories example_store)"
    by (simp add: example_store_def)
  from get_questions_by_category_unknown
    [OF nonneg unknown, of "JNum \<circ> id_q" example_request] unknown
  show ?thesis
    by (simp add: unprocesable_entity_def respond_def)
qed

theorem get_questions_by_category_unknown_not_404:
  "(0::int) \<le> 5
   \<and> 5 \<notin> id_c ` set (categories example_store)
   \<and> snd (respond (get_questions_by_category (JNum \<circ> id_q) example_store example_request 5))
        \<noteq> 404
   \<and> respond (get_questions_by_category (JNum \<circ> id_q) example_store example_request 5)
        \<noteq> not_found (HTTPException Abort404)"
  by (simp add: get_questions_by_category_def example_store_def abort_def respond_def
      unprocesable_entity_def not_found_def)

section \<open>Search\<close>

lemma lower_cases:
  "lower c = c \<or> (97 \<le> (of_char (lower c) :: nat) \<and> (of_char (lower c) :: nat) \<le> 122)"
  by (auto simp: lower_def Let_def of_char_of)

lemma lower_plain: "plain c \<Longrightarrow> plain (lower c)"
  using lower_cases [of c] by (auto simp: plain_def)

lemma lower_percent: "lower (CHR ''%'') = CHR ''%''"
  by (simp add: lower_def)

lemma like_match_percent:
  "like_match (CHR ''%'' # ps) t \<longleftrightarrow> (\<exists>u. suffix u t \<and> like_match ps u)"
proof (induction t)
  case Nil
  show ?case by simp
next
  case (Cons c cs)
  show ?case
    by (auto simp: Cons.IH suffix_Cons)
qed

lemma like_match_plain:
  assumes "\<forall>c \<in> set s. plain c"
  shows "like_match (s @ ps) t \<longleftrightarrow> (\<exists>r. t = s @ r \<and> like_match ps r)"
  using assms
proof (induction s arbitrary: t)
  case Nil
  show ?case by simp
next
  case (Cons a s)
  then have a: "a \<noteq> CHR ''%''" "a \<noteq> CHR ''_''" "a \<noteq> CHR 0x5C"
    by (simp_all add: plain_def)
  from Cons have IH: "\<And>t. like_match (s @ ps) t \<longleftrightarrow> (\<exists>r. t = s @ r \<and> like_match ps r)"
    by simp
  show ?case
  proof (cases t)
    case Nil
    with a show ?thesis by simp
  next
    case (Cons c cs)
    with a IH show ?thesis by auto
  qed
qed

lemma like_match_contains:
  assumes "\<forall>c \<in> set s. plain c"
  shows "like_match (CHR ''%'' # s @ [CHR ''%'']) t \<longleftrightarrow> sublist s t"
proof -
  have any: "like_match [CHR ''%''] r" for r
    by (simp add: like_match_percent)
  have "like_match (CHR ''%'' # s @ [CHR ''%'']) t \<longleftrightarrow> (\<exists>u. suffix u t \<and> prefix s u)"
    by (auto simp: like_match_percent like_match_plain [OF assms] any prefix_def)
  then show ?thesis
    by (simp add: sublist_altdef')
qed

text \<open>
  For a search term without \<open>%\<close>, \<open>_\<close> and backslash the query of \<open>search_questions\<close>
  selects the questions whose text contains the term, case-insensitively; for the empty
  term it selects every question.
\<close>

lemma ilike_plain_term:
  assumes "\<forall>c \<in> set search_term. plain c"
  shows "ilike str (''%'' @ search_term @ ''%'')
           \<longleftrightarrow> sublist (map lower search_term) (map lower str)"
proof -
  from assms have "\<forall>c \<in> set (map lower search_term). plain c"
    by (simp add: lower_plain)
  then show ?thesis
    by (simp add: ilike_def lower_percent like_match_contains)
qed

lemma search_query_plain_term:
  assumes "\<forall>c \<in> set search_term. plain c"
  shows "search_query s search_term = search_spec s search_term"
  by (simp only: search_query_def search_spec_def query_all_def ilike_plain_term [OF assms])

lemma search_query_empty_term: "search_query s [] = questions s"
  by (simp add: search_query_plain_term search_spec_def)

text \<open>
  C6. The claim asks, for every search term, for exactly the questions whose text
  contains the term. The view puts the term into the pattern of \<open>ilike\<close> as it is, so
  that \<open>_\<close> and \<open>%\<close> in the term are wildcards: for the term \<open>_\<close> the query selects all
  four questions of the example store, none of which contains \<open>_\<close>.
\<close>

theorem search_questions_underscore:
  "search_query example_store ''_'' = questions example_store
   \<and> search_spec example_store ''_'' = []
   \<and> respond (search_questions (JNum \<circ> id_q) example_store
        (example_request\<lparr>searchTerm := Some ''_''\<rparr>))
      = (JObj [(''success'', JBool True),
               (''questions'', JArr [JNum 1, JNum 2, JNum 3, JNum 4]),
               (''total_questions'', JNum 4)], 200)"
proof -
  have q: "search_query example_store ''_'' = questions example_store"
    by (simp add: search_query_def example_store_def example_question_def query_all_def
        ilike_def lower_def char_of_def)
  have sp: "search_spec example_store ''_'' = []"
    by code_simp
  have "get_paginated_questions (JNum \<circ> id_q) (example_request\<lparr>searchTerm := Some ''_''\<rparr>)
          (questions example_store) QUESTIONS_PER_PAGE = [JNum 1, JNum 2, JNum 3, JNum 4]"
    by (simp add: get_paginated_questions_def example_request_def QUESTIONS_PER_PAGE_def
        py_slice_def adjust_index_def example_store_def example_question_def)
  with q have "respond (search_questions (JNum \<circ> id_q) example_store
        (example_request\<lparr>searchTerm := Some ''_''\<rparr>))
      = (JObj [(''success'', JBool True),
               (''questions'', JArr [JNum 1, JNum 2, JNum 3, JNum 4]),
               (''total_questions'', JNum 4)], 200)"
    by (simp add: search_questions_def respond_def)
      (simp add: example_store_def query_all_def)
  with q sp show ?thesis by simp
qed

text \<open>
  C9. When the search term matches at least one question, the response of
  \<open>search_questions\<close> has the status 200 and its field \<open>total_questions\<close> is the number of
  all questions of the store, whatever the number of matching questions is.
\<close>

theorem search_questions_total:
  assumes "searchTerm req = Some t"
    and "\<exists>q \<in> set (questions s). ilike (question q) (''%'' @ t @ ''%'')"
  shows "search_questions format s req
           = Inr (JObj [(''success'', JBool True),
                        (''questions'', JArr (get_paginated_questions format req
                                                (search_query s t) QUESTIONS_PER_PAGE)),
                        (''total_questions'', JNum (int (length (questions s))))], 200)
       \<and> json_get (fst (respond (search_questions format s req))) ''total_questions''
           = Some (JNum (int (length (questions s))))"
proof -
  from assms(2) have "search_query s t \<noteq> []"
    by (auto simp: search_query_def query_all_def filter_empty_conv)
  with assms(1) have "search_questions format s req
           = Inr (JObj [(''success'', JBool True),
                        (''questions'', JArr (get_paginated_questions format req
                                                (search_query s t) QUESTIONS_PER_PAGE)),
                        (''total_questions'', JNum (int (length (questions s))))], 200)"
    by (simp add: search_questions_def query_all_def Let_def)
  then show ?thesis
    by (simp add: respond_def)
qed

lemma example_store_search_title:
  "search_query example_store ''title'' = [example_question 1 1 ''What is the Title?'']"
  by code_simp

theorem search_questions_total_witness:
  "searchTerm (example_request\<lparr>searchTerm := Some ''title''\<rparr>) = Some ''title''
   \<and> length (search_query example_store ''title'') = 1
   \<and> json_get (fst (respond (search_questions (JNum \<circ> id_q) example_store
          (example_request\<lparr>searchTerm := Some ''title''\<rparr>)))) ''total_questions''
        = Some (JNum 4)"
proof -
  have "example_question 1 1 ''What is the Title?'' \<in> set (search_query example_store ''title'')"
    by (simp add: example_store_search_title)
  then have "\<exists>q \<in> set (questions example_store). ilike (question q) (''%'' @ ''title'' @ ''%'')"
    by (auto simp: search_query_def query_all_def)
  moreover have st: "searchTerm (example_request\<lparr>searchTerm := Some ''title''\<rparr>) = Some ''title''"
    by simp
  ultimately have "json_get (fst (respond (search_questions (JNum \<circ> id_q) example_store
          (example_request\<lparr>searchTerm := Some ''title''\<rparr>)))) ''total_questions''
        = Some (JNum (int (length (questions example_store))))"
    using search_questions_total
      [of "example_request\<lparr>searchTerm := Some ''title''\<rparr>" "''title''" example_store
        "JNum \<circ> id_q"]
    by blast
  moreover have "length (questions example_store) = 4"
    by (simp add: example_store_def)
  ultimately show ?thesis
    using st by (simp add: example_store_search_title)
qed

section \<open>Deleting a question\<close>

lemma query_get_None:
  "i \<notin> id_q ` set (questions s) \<Longrightarrow> query_get s i = None"
  by (auto simp: query_get_def find_None_iff)

lemma query_get_Some:
  assumes "i \<in> id_q ` set (questions s)"
  shows "\<exists>q. query_get s i = Some q \<and> id_q q = i"
proof (cases "query_get s i")
  case None
  with assms show ?thesis
    by (auto simp: query_get_def find_None_iff)
next
  case (Some q)
  then show ?thesis
    by (auto simp: query_get_def find_Some_iff)
qed

text \<open>
  C7. \<open>delete_question\<close> on an id that a question of the store has answers 200 and
  leaves a store whose list of all questions (ordered by id) is the former one without
  the questions of that id: it has no question of that id and every other question is
  as before; the categories are unchanged. On an id that no question has it raises the
  exception for 404 (the response of \<open>not_found\<close>) and leaves the store as it was.
\<close>

theorem delete_question_effect:
  "(i \<in> id_q ` set (questions s) \<longrightarrow>
      (\<exists>s'. delete_question s i
               = (s', Inr (JObj [(''success'', JBool True),
                                 (''question_id'', JNum i),
                                 (''message'', JStr ''Question successfully deleted'')], 200))
          \<and> i \<notin> id_q ` set (order_by_id (query_all s'))
          \<and> order_by_id (query_all s')
               = filter (\<lambda>q. id_q q \<noteq> i) (order_by_id (query_all s))
          \<and> categories s' = categories s))
   \<and> (i \<notin> id_q ` set (questions s) \<longrightarrow>
      delete_question s i = (s, Inl (HTTPException Abort404))
      \<and> respond (snd (delete_question s i)) = not_found (HTTPException Abort404)
      \<and> snd (respond (snd (delete_question s i))) = 404)"
proof (rule conjI; rule impI)
  assume "i \<in> id_q ` set (questions s)"
  then obtain q where q: "query_get s i = Some q" "id_q q = i"
    using query_get_Some by blast
  define s' where "s' = Question_delete q s"
  from q have del: "delete_question s i
               = (s', Inr (JObj [(''success'', JBool True),
                                 (''question_id'', JNum i),
                                 (''message'', JStr ''Question successfully deleted'')], 200))"
    by (simp add: delete_question_def s'_def)
  from q have qs': "questions s' = filter (\<lambda>r. id_q r \<noteq> i) (questions s)"
    by (simp add: s'_def Question_delete_def)
  have "i \<notin> id_q ` set (order_by_id (query_all s'))"
    by (auto simp: order_by_id_def query_all_def qs')
  moreover have "order_by_id (query_all s')
               = filter (\<lambda>q. id_q q \<noteq> i) (order_by_id (query_all s))"
    by (simp add: order_by_id_def query_all_def qs' filter_sort)
  moreover have "categories s' = categories s"
    by (simp add: s'_def Question_delete_def)
  ultimately show "\<exists>s'. delete_question s i
               = (s', Inr (JObj [(''success'', JBool True),
                                 (''question_id'', JNum i),
                                 (''message'', JStr ''Question successfully deleted'')], 200))
          \<and> i \<notin> id_q ` set (order_by_id (query_all s'))
          \<and> order_by_id (query_all s')
               = filter (\<lambda>q. id_q q \<noteq> i) (order_by_id (query_all s))
          \<and> categories s' = categories s"
    using del by blast
next
  assume "i \<notin> id_q ` set (questions s)"
  then have "query_get s i = None" by (rule query_get_None)
  then show "delete_question s i = (s, Inl (HTTPException Abort404))
      \<and> respond (snd (delete_question s i)) = not_found (HTTPException Abort404)
      \<and> snd (respond (snd (delete_question s i))) = 404"
    by (simp add: delete_question_def abort_def respond_def not_found_def)
qed

theorem delete_question_effect_witness:
  "2 \<in> id_q ` set (questions example_store)
   \<and> map id_q (order_by_id (query_all (fst (delete_question example_store 2)))) = [1, 3, 4]
   \<and> snd (delete_question example_store 2)
        = Inr (JObj [(''success'', JBool True),
                     (''question_id'', JNum 2),
                     (''message'', JStr ''Question successfully deleted'')], 200)
   \<and> 7 \<notin> id_q ` set (questions example_store)
   \<and> delete_question example_store 7 = (example_store, Inl (HTTPException Abort404))
   \<and> snd (respond (snd (delete_question example_store 7))) = 404"
proof -
  have in2: "2 \<in> id_q ` set (questions example_store)"
    by (simp add: example_store_def example_question_def)
  have out7: "7 \<notin> id_q ` set (questions example_store)"
    by (simp add: example_store_def example_question_def)
  have all: "map id_q (filter (\<lambda>q. id_q q \<noteq> 2) (order_by_id (query_all example_store)))
               = [1, 3, 4]"
    by (simp add: order_by_id_def query_all_def example_store_def example_question_def)
  from in2 delete_question_effect [of 2 example_store]
  obtain s' where "delete_question example_store 2
               = (s', Inr (JObj [(''success'', JBool True),
                                 (''question_id'', JNum 2),
                                 (''message'', JStr ''Question successfully deleted'')], 200))"
    and "order_by_id (query_all s')
               = filter (\<lambda>q. id_q q \<noteq> 2) (order_by_id (query_all example_store))"
    by blast
  with all have "map id_q (order_by_id (query_all (fst (delete_question example_store 2))))
                   = [1, 3, 4]"
    and "snd (delete_question example_store 2)
        = Inr (JObj [(''success'', JBool True),
                     (''question_id'', JNum 2),
                     (''message'', JStr ''Question successfully deleted'')], 200)"
    by simp_all
  with in2 out7 delete_question_effect [of 7 example_store] show ?thesis
    by (simp add: respond_def not_found_def)
qed

end
